theory Spec2Isabelle
  imports Main "HOL-Library.Multiset"
begin

section \<open>Values, errors and the bot's state\<close>

text \<open>
  The cog \<^verbatim>\<open>joku/cogs/events.py\<close> handles gateway frames (JSON objects, Python
  dicts) and discord.py objects. A JSON value is \<open>PNone\<close> (null and Python's
  \<^verbatim>\<open>None\<close>), an integer, a string or a dict; a dict is an association list read
  with \<open>map_of\<close>. A character of a string is a code point below 256.
\<close>

datatype pyval =
    PNone
  | PInt int
  | PStr string
  | PDict "(string \<times> pyval) list"

type_synonym pydict = "(string \<times> pyval) list"

text \<open>
  Every exception the handlers can raise is a value; \<open>OtherError\<close> is any exception
  class not listed, by its name.
\<close>

datatype err =
    KeyError string
  | AttributeError
  | TypeError
  | ValueError
  | IndexError
  | StoreError
  | SendError
  | OtherError string

text \<open>
  An object as \<^verbatim>\<open>str.format\<close> observes it. What the built-in types and discord.py
  make of a format specification, a conversion, an attribute or an item is not in the
  cog, so each object carries it:
  \<^item> \<open>obj_format obj spec\<close> is \<^verbatim>\<open>format(obj, spec)\<close>;
  \<^item> \<open>obj_convert obj c\<close> is the conversion \<^verbatim>\<open>!r\<close>, \<^verbatim>\<open>!s\<close> or \<^verbatim>\<open>!a\<close>
    (\<^verbatim>\<open>repr\<close>, \<^verbatim>\<open>str\<close>, \<^verbatim>\<open>ascii\<close>): it raises, or gives a string, of which the
    result is \<^verbatim>\<open>format\<close> at each format specification;
  \<^item> \<open>obj_children\<close> are the attributes and items the object has, and
    \<open>obj_missing\<close> is the exception an absent one raises.
  A template reads finitely many attributes and items, so a finite tree stands for
  the object.
\<close>

datatype accessor = Attr string | Index nat | Key string

datatype pyobj =
  Obj (obj_format: "string \<Rightarrow> err + string")
      (obj_convert: "char \<Rightarrow> err + (string \<Rightarrow> err + string)")
      (obj_children: "(accessor \<times> pyobj) list")
      (obj_missing: "accessor \<Rightarrow> err")

text \<open>
  The discord.py objects the handlers receive: the attributes the handlers read, and
  the object itself as \<^verbatim>\<open>str.format\<close> observes it.
\<close>

record server =
  server_id :: string
  server_obj :: pyobj

record member =
  member_id :: string
  member_name :: string
  member_server :: server
  member_obj :: pyobj

record author =
  author_id :: string
  author_name :: string

record channel =
  channel_id :: string
  channel_obj :: pyobj

record message =
  message_author :: author
  message_server :: "server option"
  message_channel :: channel
  message_content :: string

text \<open>
  The state the handlers reach through \<^verbatim>\<open>self.bot\<close>:
  \<^item> \<open>events\<close> is \<^verbatim>\<open>bot.manager.events\<close>, a \<^verbatim>\<open>collections.Counter\<close>
    (the command \<^verbatim>\<open>events\<close> calls its \<^verbatim>\<open>most_common\<close>);
  \<^item> \<open>rdblog\<close> holds the rows of the RethinkDB table \<^verbatim>\<open>events\<close>, oldest first, and
    \<open>rdb_up\<close> says whether the store accepts an append;
  \<^item> \<open>subscriptions\<close> is the notification configuration: for a guild id and a
    category, the target channel and the custom template if one is set;
  \<^item> \<open>outbox\<close> lists the messages sent, oldest first, and \<open>send_up\<close> says whether
    a send succeeds;
  \<^item> \<open>warnings\<close> lists the calls of \<^verbatim>\<open>bot.logger.warn\<close> (the event and the frame);
  \<^item> \<open>sequence\<close> is \<^verbatim>\<open>bot.connection.sequence\<close>.
\<close>

record world =
  events :: "pyval \<rightharpoonup> int"
  rdblog :: "pydict list"
  rdb_up :: bool
  subscriptions :: "string \<times> string \<rightharpoonup> channel \<times> string option"
  outbox :: "(channel \<times> string) list"
  send_up :: bool
  warnings :: "(pyval \<times> pydict) list"
  sequence :: pyval

section \<open>Python primitives\<close>

text \<open>\<^verbatim>\<open>data.get(k)\<close> on the frame, which is a dict: \<^verbatim>\<open>None\<close> when the key is absent.\<close>

definition dict_get :: "pydict \<Rightarrow> string \<Rightarrow> pyval" where
  "dict_get d k = (case map_of d k of None \<Rightarrow> PNone | Some v \<Rightarrow> v)"

text \<open>\<^verbatim>\<open>data[k]\<close>: KeyError when the key is absent.\<close>

definition subscript :: "pydict \<Rightarrow> string \<Rightarrow> err + pyval" where
  "subscript d k = (case map_of d k of None \<Rightarrow> Inl (KeyError k) | Some v \<Rightarrow> Inr v)"

text \<open>
  \<^verbatim>\<open>v.get(k, None)\<close> on a value read from the frame: only a dict has the method,
  \<^verbatim>\<open>None\<close>, an int and a str raise AttributeError.
\<close>

fun py_get :: "pyval \<Rightarrow> string \<Rightarrow> err + pyval" where
  "py_get (PDict d) k = Inr (dict_get d k)"
| "py_get PNone k = Inl AttributeError"
| "py_get (PInt n) k = Inl AttributeError"
| "py_get (PStr s) k = Inl AttributeError"

text \<open>Python's truth value, as \<^verbatim>\<open>not event\<close> tests it.\<close>

fun truthy :: "pyval \<Rightarrow> bool" where
  "truthy PNone = False"
| "truthy (PInt n) = (n \<noteq> 0)"
| "truthy (PStr s) = (s \<noteq> [])"
| "truthy (PDict d) = (d \<noteq> [])"

text \<open>A dict is not hashable: using one as a key raises TypeError.\<close>

fun hashable :: "pyval \<Rightarrow> bool" where
  "hashable (PDict d) = False"
| "hashable v = True"

text \<open>The module's table of op-codes that arrive without a type tag (lines 19-24).\<close>

definition unknown_events :: "(int \<times> string) list" where
  "unknown_events =
     [(11, ''HEARTBEAT_ACK''), (10, ''READY''), (9, ''INVALIDATE_SESSION''), (7, ''RECONNECT'')]"

text \<open>\<^verbatim>\<open>unknown_events.get(op)\<close>: the keys are ints, so any other hashable key is absent.\<close>

fun unknown_events_get :: "pyval \<Rightarrow> err + pyval" where
  "unknown_events_get (PInt n) =
     Inr (case map_of unknown_events n of None \<Rightarrow> PNone | Some s \<Rightarrow> PStr s)"
| "unknown_events_get (PDict d) = Inl TypeError"
| "unknown_events_get v = Inr PNone"

text \<open>
  \<^verbatim>\<open>counter[key] += 1\<close> on a \<^verbatim>\<open>Counter\<close>: a missing key reads as 0.
\<close>

definition count_of :: "(pyval \<rightharpoonup> int) \<Rightarrow> pyval \<Rightarrow> int" where
  "count_of c k = (case c k of None \<Rightarrow> 0 | Some n \<Rightarrow> n)"

definition counter_incr :: "(pyval \<rightharpoonup> int) \<Rightarrow> pyval \<Rightarrow> (pyval \<rightharpoonup> int)" where
  "counter_incr c k = c(k \<mapsto> count_of c k + 1)"

section \<open>The collaborators that are not in the cog\<close>

text \<open>
  Modelled from the spec: \<^verbatim>\<open>bot.rdblog.log\<close>, the Event Logger's append
  (\<^verbatim>\<open>Store.append(record) -> fails with StoreError on durability failure\<close>). The record
  is added to the log, or the call raises and the log is unchanged. The ingestion
  timestamp the logger adds is left out.
\<close>

definition rdblog_log :: "pydict \<Rightarrow> world \<Rightarrow> err option \<times> world" where
  "rdblog_log obb w =
     (if rdb_up w then (None, w\<lparr>rdblog := rdblog w @ [obb]\<rparr>) else (Some StoreError, w))"

text \<open>
  Modelled from the spec: \<^verbatim>\<open>bot.rethinkdb.get_event_message\<close>, the Notification Template
  Resolver (\<^verbatim>\<open>resolve(guildId, category) -> Optional<(channelId, template)>\<close>, the
  configured template or the hardcoded default): a pure lookup, none when the guild has
  no subscription for the category.
\<close>

definition get_event_message :: "world \<Rightarrow> server \<Rightarrow> string \<Rightarrow> string \<Rightarrow> (channel \<times> string) option" where
  "get_event_message w srv category dflt =
     (case subscriptions w (server_id srv, category) of
        None \<Rightarrow> None
      | Some (ch, custom) \<Rightarrow> Some (ch, case custom of None \<Rightarrow> dflt | Some t \<Rightarrow> t))"

text \<open>
  Modelled from the spec: \<^verbatim>\<open>bot.send_message\<close>, the channel-send primitive
  (\<^verbatim>\<open>Channel.send(channelId, text) -> fails with SendError\<close>).
\<close>

definition send_message :: "channel \<Rightarrow> string \<Rightarrow> world \<Rightarrow> err option \<times> world" where
  "send_message ch msg w =
     (if send_up w then (None, w\<lparr>outbox := outbox w @ [(ch, msg)]\<rparr>) else (Some SendError, w))"

section \<open>The raw-frame handler\<close>

text \<open>
  Lines 83-87 of \<^verbatim>\<open>on_socket_response\<close>, the classification of a frame: the type
  tag when it is truthy, else the name of the op-code in \<open>unknown_events\<close>, else
  \<^verbatim>\<open>None\<close> (the unknown kind) with a warning.
\<close>

definition classify :: "pydict \<Rightarrow> world \<Rightarrow> (err + pyval) \<times> world" where
  "classify data w =
     (let event = dict_get data ''t'' in
      if \<not> truthy event then
        (case unknown_events_get (dict_get data ''op'') of
           Inl e \<Rightarrow> (Inl e, w)
         | Inr event \<Rightarrow>
             if \<not> truthy event
             then (Inr event, w\<lparr>warnings := warnings w @ [(event, data)]\<rparr>)
             else (Inr event, w))
      else (Inr event, w))"

text \<open>
  Lines 93-98: the record of a PRESENCE_UPDATE frame. The dict display is evaluated
  left to right: \<^verbatim>\<open>data["d"]\<close>, then its \<^verbatim>\<open>get\<close>s.
\<close>

definition presence_record :: "pydict \<Rightarrow> err + pydict" where
  "presence_record data =
     (case subscript data ''d'' of
        Inl e \<Rightarrow> Inl e
      | Inr d \<Rightarrow>
     (case py_get d ''guild_id'' of
        Inl e \<Rightarrow> Inl e
      | Inr guild \<Rightarrow>
     (case py_get d ''user'' of
        Inl e \<Rightarrow> Inl e
      | Inr user \<Rightarrow>
     (case py_get user ''id'' of
        Inl e \<Rightarrow> Inl e
      | Inr uid \<Rightarrow>
     (case py_get d ''game'' of
        Inl e \<Rightarrow> Inl e
      | Inr game \<Rightarrow>
          Inr [(''t'', PStr ''PRESENCE_UPDATE''), (''server_id'', guild),
               (''member_id'', uid), (''game'', game)])))))"

text \<open>Line 108: \<^verbatim>\<open>self.bot.manager.events[event] += 1\<close>.\<close>

definition count_event :: "pyval \<Rightarrow> world \<Rightarrow> err option \<times> world" where
  "count_event event w =
     (if hashable event then (None, w\<lparr>events := counter_incr (events w) event\<rparr>)
      else (Some TypeError, w))"

text \<open>
  Lines 91-106: the two logging branches. The second compares with the literal
  \<^verbatim>\<open>"HEATBEAT_ACK"\<close>, as the source spells it.
\<close>

definition log_frame :: "pyval \<Rightarrow> pydict \<Rightarrow> world \<Rightarrow> err option \<times> world" where
  "log_frame event data w =
     (if event = PStr ''PRESENCE_UPDATE'' then
        (case presence_record data of
           Inl e \<Rightarrow> (Some e, w)
         | Inr e_data \<Rightarrow> rdblog_log e_data w)
      else if event = PStr ''HEATBEAT_ACK'' then
        rdblog_log [(''t'', PStr ''HEARTBEAT_ACK''), (''seq'', sequence w)] w
      else (None, w))"

text \<open>
  \<^verbatim>\<open>on_socket_response\<close> (lines 79-108): classify, log, then count. An exception
  ends the handler where it is raised; the state reached so far is returned with it.
\<close>

definition on_socket_response :: "pydict \<Rightarrow> world \<Rightarrow> err option \<times> world" where
  "on_socket_response data w =
     (case classify data w of
        (Inl e, w1) \<Rightarrow> (Some e, w1)
      | (Inr event, w1) \<Rightarrow>
          (case log_frame event data w1 of
             (Some e, w2) \<Rightarrow> (Some e, w2)
           | (None, w2) \<Rightarrow> count_event event w2))"

section \<open>\<^verbatim>\<open>str.format\<close> with keyword arguments\<close>

text \<open>
  The templates are formatted with \<^verbatim>\<open>event_msg.format(member=..., server=...,
  channel=...)\<close>: keyword arguments only. CPython reads the template from left to
  right, one piece of literal text and one replacement field at a time: it parses the
  field, looks its object up, converts it, expands its format specification and
  renders it, and raises at the first step that fails.
\<close>

text \<open>
  The pieces of a template: a character of literal text, a replacement field (its
  field name, its conversion character if any, its format specification), or the
  point where the template is malformed.
\<close>

datatype token = TLit char | TField string "char option" string | TBad

text \<open>
  Where the scan stands: in literal text; in a field name, outside or inside brackets;
  after \<^verbatim>\<open>!\<close>; after the conversion character; in the format specification, with the
  count of open braces.
\<close>

datatype mode =
    Lit
  | Name string
  | Bracket string
  | Bang string
  | Conv string char
  | Spec string "char option" nat string

text \<open>
  The scan of a template. \<^verbatim>\<open>{{\<close> and \<^verbatim>\<open>}}\<close> are literal braces; a single \<^verbatim>\<open>}\<close>, a
  \<^verbatim>\<open>{\<close> in a field name, a character other than \<^verbatim>\<open>}\<close> and \<^verbatim>\<open>:\<close> after the conversion
  character, and the end of the template inside a field are malformed (ValueError).
  In a field name everything from \<^verbatim>\<open>[\<close> to the next \<^verbatim>\<open>]\<close> is skipped over; the field
  name ends at \<^verbatim>\<open>}\<close>, \<^verbatim>\<open>:\<close> or \<^verbatim>\<open>!\<close>; the format specification ends at the \<^verbatim>\<open>}\<close> that
  closes the field, braces inside it being counted.
\<close>

fun scan :: "mode \<Rightarrow> string \<Rightarrow> token list" where
  "scan Lit [] = []"
| "scan Lit (c # cs) =
     (if c = CHR ''{'' then
        (case cs of
           [] \<Rightarrow> [TBad]
         | d # r \<Rightarrow> if d = CHR ''{'' then TLit c # scan Lit r else scan (Name []) cs)
      else if c = CHR ''}'' then
        (case cs of
           [] \<Rightarrow> [TBad]
         | d # r \<Rightarrow> if d = CHR ''}'' then TLit c # scan Lit r else [TBad])
      else TLit c # scan Lit cs)"
| "scan (Name f) [] = [TBad]"
| "scan (Name f) (c # cs) =
     (if c = CHR ''{'' then [TBad]
      else if c = CHR ''['' then scan (Bracket (f @ [c])) cs
      else if c = CHR ''}'' then TField f None [] # scan Lit cs
      else if c = CHR '':'' then scan (Spec f None 1 []) cs
      else if c = CHR ''!'' then scan (Bang f) cs
      else scan (Name (f @ [c])) cs)"
| "scan (Bracket f) [] = [TBad]"
| "scan (Bracket f) (c # cs) =
     (if c = CHR '']'' then scan (Name (f @ [c])) cs else scan (Bracket (f @ [c])) cs)"
| "scan (Bang f) [] = [TBad]"
| "scan (Bang f) (c # cs) = scan (Conv f c) cs"
| "scan (Conv f v) [] = [TBad]"
| "scan (Conv f v) (c # cs) =
     (if c = CHR ''}'' then TField f (Some v) [] # scan Lit cs
      else if c = CHR '':'' then scan (Spec f (Some v) 1 []) cs
      else [TBad])"
| "scan (Spec f v n spec) [] = [TBad]"
| "scan (Spec f v n spec) (c # cs) =
     (if c = CHR ''{'' then scan (Spec f v (Suc n) (spec @ [c])) cs
      else if c = CHR ''}'' then
        (if n = 1 then TField f v spec # scan Lit cs
         else scan (Spec f v (n - 1) (spec @ [c])) cs)
      else scan (Spec f v n (spec @ [c])) cs)"

text \<open>
  A name made of decimal digits is a number; it must not exceed \<^verbatim>\<open>PY_SSIZE_T_MAX\<close>,
  here that of a 64-bit build, \<open>2 ^ 63 - 1\<close>.
\<close>

definition digit_char :: "char \<Rightarrow> bool" where
  "digit_char c = (c \<in> set ''0123456789'')"

definition digits_val :: "string \<Rightarrow> nat" where
  "digits_val s = foldl (\<lambda>n c. 10 * n + (of_char c - 48)) 0 s"

definition ssize_max :: nat where
  "ssize_max = 9223372036854775807"

text \<open>
  The first part of a field name, up to the first \<^verbatim>\<open>.\<close> or \<^verbatim>\<open>[\<close>, and what it
  selects: nothing written is the next positional argument, a number is a positional
  argument, anything else is a keyword.
\<close>

definition first_name :: "string \<Rightarrow> string" where
  "first_name f = takeWhile (\<lambda>c. c \<noteq> CHR ''.'' \<and> c \<noteq> CHR ''['') f"

definition rest_name :: "string \<Rightarrow> string" where
  "rest_name f = dropWhile (\<lambda>c. c \<noteq> CHR ''.'' \<and> c \<noteq> CHR ''['') f"

datatype field_key = Positional | Number nat | TooManyDigits | Keyword string

definition field_key :: "string \<Rightarrow> field_key" where
  "field_key name =
     (if name = [] then Positional
      else if list_all digit_char name then
        (if digits_val name \<le> ssize_max then Number (digits_val name) else TooManyDigits)
      else Keyword name)"

text \<open>
  The rest of a field name is a chain of \<^verbatim>\<open>.attr\<close> and \<^verbatim>\<open>[key]\<close>. Each is parsed
  when the object before it has been found: an empty attribute or key, a missing
  \<^verbatim>\<open>]\<close>, too many digits in a key and a character other than \<^verbatim>\<open>.\<close> and \<^verbatim>\<open>[\<close> after
  \<^verbatim>\<open>]\<close> are malformed (ValueError).
\<close>

datatype step = Get accessor | Malformed

datatype amode = AStart | AAttr string | AItem string

definition item_step :: "string \<Rightarrow> step" where
  "item_step k =
     (if k = [] then Malformed
      else if list_all digit_char k then
        (if digits_val k \<le> ssize_max then Get (Index (digits_val k)) else Malformed)
      else Get (Key k))"

fun accessors :: "amode \<Rightarrow> string \<Rightarrow> step list" where
  "accessors AStart [] = []"
| "accessors AStart (c # cs) =
     (if c = CHR ''.'' then accessors (AAttr []) cs
      else if c = CHR ''['' then accessors (AItem []) cs
      else [Malformed])"
| "accessors (AAttr a) [] = (if a = [] then [Malformed] else [Get (Attr a)])"
| "accessors (AAttr a) (c # cs) =
     (if c = CHR ''.'' then
        (if a = [] then [Malformed] else Get (Attr a) # accessors (AAttr []) cs)
      else if c = CHR ''['' then
        (if a = [] then [Malformed] else Get (Attr a) # accessors (AItem []) cs)
      else accessors (AAttr (a @ [c])) cs)"
| "accessors (AItem k) [] = [Malformed]"
| "accessors (AItem k) (c # cs) =
     (if c = CHR '']'' then item_step k # accessors AStart cs
      else accessors (AItem (k @ [c])) cs)"

fun walk :: "pyobj \<Rightarrow> step list \<Rightarrow> err + pyobj" where
  "walk obj [] = Inr obj"
| "walk obj (Malformed # steps) = Inl ValueError"
| "walk obj (Get a # steps) =
     (case map_of (obj_children obj) a of
        None \<Rightarrow> Inl (obj_missing obj a)
      | Some obj' \<Rightarrow> walk obj' steps)"

text \<open>
  The object of a field name. There are no positional arguments, so a positional
  field raises IndexError; an absent keyword raises KeyError.
\<close>

definition get_field_object :: "(string \<times> pyobj) list \<Rightarrow> string \<Rightarrow> err + pyobj" where
  "get_field_object kwargs f =
     (case field_key (first_name f) of
        Positional \<Rightarrow> Inl IndexError
      | Number n \<Rightarrow> Inl IndexError
      | TooManyDigits \<Rightarrow> Inl ValueError
      | Keyword name \<Rightarrow>
          (case map_of kwargs name of
             None \<Rightarrow> Inl (KeyError name)
           | Some obj \<Rightarrow> walk obj (accessors AStart (rest_name f))))"

text \<open>
  The conversion: \<^verbatim>\<open>r\<close>, \<^verbatim>\<open>s\<close> and \<^verbatim>\<open>a\<close> are known, any other character is a
  ValueError.
\<close>

definition do_conversion :: "pyobj \<Rightarrow> char option \<Rightarrow> err + (string \<Rightarrow> err + string)" where
  "do_conversion obj v =
     (case v of
        None \<Rightarrow> Inr (obj_format obj)
      | Some c \<Rightarrow> if c \<in> set ''rsa'' then obj_convert obj c else Inl ValueError)"

text \<open>
  One replacement field: the object, then the conversion, then the format
  specification, which is itself formatted by \<open>expand\<close> when it holds a brace, then the
  rendering.
\<close>

definition output_markup ::
  "(string \<Rightarrow> err + string) \<Rightarrow> (string \<times> pyobj) list \<Rightarrow> string \<Rightarrow> char option \<Rightarrow> string
     \<Rightarrow> err + string" where
  "output_markup expand kwargs f v spec =
     (case get_field_object kwargs f of
        Inl e \<Rightarrow> Inl e
      | Inr obj \<Rightarrow>
     (case do_conversion obj v of
        Inl e \<Rightarrow> Inl e
      | Inr render \<Rightarrow>
     (case (if CHR ''{'' \<in> set spec then expand spec else Inr spec) of
        Inl e \<Rightarrow> Inl e
      | Inr spec' \<Rightarrow> render spec')))"

fun render_tokens ::
  "(string \<Rightarrow> err + string) \<Rightarrow> (string \<times> pyobj) list \<Rightarrow> token list \<Rightarrow> err + string" where
  "render_tokens expand kwargs [] = Inr []"
| "render_tokens expand kwargs (TBad # ts) = Inl ValueError"
| "render_tokens expand kwargs (TLit c # ts) =
     (case render_tokens expand kwargs ts of Inl e \<Rightarrow> Inl e | Inr out \<Rightarrow> Inr (c # out))"
| "render_tokens expand kwargs (TField f v spec # ts) =
     (case output_markup expand kwargs f v spec of
        Inl e \<Rightarrow> Inl e
      | Inr s \<Rightarrow>
          (case render_tokens expand kwargs ts of Inl e \<Rightarrow> Inl e | Inr out \<Rightarrow> Inr (s @ out)))"

text \<open>
  \<^verbatim>\<open>build_string\<close> with its recursion depth: the template is formatted at depth 2, a
  format specification at one less, and depth 0 is the ValueError \<^verbatim>\<open>Max string
  recursion exceeded\<close>.
\<close>

fun build_string :: "nat \<Rightarrow> (string \<times> pyobj) list \<Rightarrow> string \<Rightarrow> err + string" where
  "build_string 0 kwargs s = Inl ValueError"
| "build_string (Suc depth) kwargs s =
     render_tokens (build_string depth kwargs) kwargs (scan Lit s)"

definition py_format :: "string \<Rightarrow> (string \<times> pyobj) list \<Rightarrow> err + string" where
  "py_format template kwargs = build_string (Suc (Suc 0)) kwargs template"



section \<open>The lifecycle handlers\<close>

text \<open>
  The keyword arguments of every template: the member, the server and the channel.
\<close>

definition template_fields :: "member \<Rightarrow> server \<Rightarrow> channel \<Rightarrow> (string \<times> pyobj) list" where
  "template_fields m srv ch =
     [(''member'', member_obj m), (''server'', server_obj srv), (''channel'', channel_obj ch)]"

text \<open>
  The four handlers end the same way (lines 154-166, 177-189, 207-219, 231-243):
  resolve the subscription, return when there is none, format the template with the
  member, the server and the channel, and send the message.
\<close>

definition announce :: "server \<Rightarrow> member \<Rightarrow> string \<Rightarrow> string \<Rightarrow> world \<Rightarrow> err option \<times> world" where
  "announce srv m category dflt w =
     (case get_event_message w srv category dflt of
        None \<Rightarrow> (None, w)
      | Some (ch, event_msg) \<Rightarrow>
          (case py_format event_msg (template_fields m srv ch) of
             Inl e \<Rightarrow> (Some e, w)
           | Inr msg \<Rightarrow> send_message ch msg w))"

definition member_record :: "string \<Rightarrow> member \<Rightarrow> server \<Rightarrow> pydict" where
  "member_record kind m srv =
     [(''t'', PStr kind), (''member_id'', PStr (member_id m)),
      (''member_name'', PStr (member_name m)), (''server_id'', PStr (server_id srv))]"

definition on_member_ban :: "member \<Rightarrow> world \<Rightarrow> err option \<times> world" where
  "on_member_ban m w =
     (case rdblog_log (member_record ''GUILD_BAN_ADD'' m (member_server m)) w of
        (Some e, w1) \<Rightarrow> (Some e, w1)
      | (None, w1) \<Rightarrow> announce (member_server m) m ''bans'' ''`{member.name}` got **bent**'' w1)"

definition on_member_unban :: "server \<Rightarrow> member \<Rightarrow> world \<Rightarrow> err option \<times> world" where
  "on_member_unban srv m w =
     (case rdblog_log (member_record ''GUILD_BAN_REMOVE'' m srv) w of
        (Some e, w1) \<Rightarrow> (Some e, w1)
      | (None, w1) \<Rightarrow> announce srv m ''unbans'' ''`{member.name}` got **unbent**'' w1)"

definition on_member_join :: "member \<Rightarrow> world \<Rightarrow> err option \<times> world" where
  "on_member_join m w =
     (case rdblog_log (member_record ''GUILD_MEMBER_ADD'' m (member_server m)) w of
        (Some e, w1) \<Rightarrow> (Some e, w1)
      | (None, w1) \<Rightarrow> announce (member_server m) m ''joins'' ''Welcome {member.name}!'' w1)"

definition on_member_remove :: "member \<Rightarrow> world \<Rightarrow> err option \<times> world" where
  "on_member_remove m w =
     (case rdblog_log (member_record ''GUILD_MEMBER_REMOVE'' m (member_server m)) w of
        (Some e, w1) \<Rightarrow> (Some e, w1)
      | (None, w1) \<Rightarrow> announce (member_server m) m ''leaves'' ''Bye {member.name}!'' w1)"

section \<open>The message handlers\<close>

text \<open>
  \<^verbatim>\<open>on_typing\<close> (lines 114-120).
\<close>

definition on_typing :: "channel \<Rightarrow> author \<Rightarrow> world \<Rightarrow> err option \<times> world" where
  "on_typing ch user w =
     rdblog_log [(''t'', PStr ''TYPING_START''), (''member_id'', PStr (author_id user)),
                 (''channel_id'', PStr (channel_id ch))] w"

text \<open>
  \<^verbatim>\<open>on_message_delete\<close> (lines 122-131) and \<^verbatim>\<open>on_message_edit\<close> (lines 133-143).
  \<^verbatim>\<open>message.server\<close> is \<^verbatim>\<open>None\<close> for a private message, and reading its \<^verbatim>\<open>id\<close>
  raises AttributeError. Both entries \<^verbatim>\<open>server_id\<close> and \<^verbatim>\<open>channel_id\<close> are
  \<^verbatim>\<open>message.server.id\<close>.
\<close>

definition on_message_delete :: "message \<Rightarrow> world \<Rightarrow> err option \<times> world" where
  "on_message_delete msg w =
     (case message_server msg of
        None \<Rightarrow> (Some AttributeError, w)
      | Some srv \<Rightarrow>
          rdblog_log
            [(''t'', PStr ''MESSAGE_DELETE''),
             (''member_id'', PStr (author_id (message_author msg))),
             (''member_name'', PStr (author_name (message_author msg))),
             (''server_id'', PStr (server_id srv)),
             (''channel_id'', PStr (server_id srv)),
             (''content'', PStr (message_content msg))] w)"

definition on_message_edit :: "message \<Rightarrow> message \<Rightarrow> world \<Rightarrow> err option \<times> world" where
  "on_message_edit old msg w =
     (case message_server msg of
        None \<Rightarrow> (Some AttributeError, w)
      | Some srv \<Rightarrow>
          rdblog_log
            [(''t'', PStr ''MESSAGE_UPDATE''),
             (''member_id'', PStr (author_id (message_author msg))),
             (''member_name'', PStr (author_name (message_author msg))),
             (''server_id'', PStr (server_id srv)),
             (''channel_id'', PStr (server_id srv)),
             (''old_content'', PStr (message_content old)),
             (''content'', PStr (message_content msg))] w)"

text \<open>
  \<^verbatim>\<open>on_message\<close> (lines 110-112) hands the message to \<^verbatim>\<open>rdblog.log_message\<close>,
  which is not in the cog: the record it builds from the message is the parameter
  \<open>layout\<close>.
\<close>

definition on_message :: "(message \<Rightarrow> pydict) \<Rightarrow> message \<Rightarrow> world \<Rightarrow> err option \<times> world" where
  "on_message layout msg w = rdblog_log (layout msg) w"

section \<open>The command \<^verbatim>\<open>events all\<close>\<close>

text \<open>
  Modelled from the spec: the store's \<^verbatim>\<open>groupCount\<close>
  (\<^verbatim>\<open>r.table("events").group("t").count()\<close>): one entry per kind in the log, with the
  number of records of that kind. The order of the entries is the store's.
\<close>

definition kinds_of :: "pydict list \<Rightarrow> pyval list" where
  "kinds_of rows = map (\<lambda>row. dict_get row ''t'') rows"

definition group_count :: "pydict list \<Rightarrow> (pyval \<times> int) list" where
  "group_count rows =
     map (\<lambda>k. (k, int (count_list (kinds_of rows) k))) (remdups (kinds_of rows))"

text \<open>
  Lines 60-62: \<^verbatim>\<open>reversed(sorted(list(q.items()), key=lambda x: x[1]))\<close>, the rows of
  the table the command prints.
\<close>

definition all_rows :: "(pyval \<times> int) list \<Rightarrow> (pyval \<times> int) list" where
  "all_rows q = rev (sort_key snd q)"

definition events_all :: "world \<Rightarrow> (pyval \<times> int) list" where
  "events_all w = all_rows (group_count (rdblog w))"

section \<open>Delivery\<close>

text \<open>
  What reaches the cog: a raw frame, a parsed event, or a change made outside the cog
  (the store or the send primitive going down or up, the configuration being edited).
\<close>

datatype event =
    SocketResponse pydict
  | Message message
  | Typing channel author
  | MessageDelete message
  | MessageEdit message message
  | MemberBan member
  | MemberUnban server member
  | MemberJoin member
  | MemberRemove member
  | Outside bool bool "string \<times> string \<rightharpoonup> channel \<times> string option"

fun deliver :: "(message \<Rightarrow> pydict) \<Rightarrow> event \<Rightarrow> world \<Rightarrow> err option \<times> world" where
  "deliver layout (SocketResponse data) w = on_socket_response data w"
| "deliver layout (Message msg) w = on_message layout msg w"
| "deliver layout (Typing ch user) w = on_typing ch user w"
| "deliver layout (MessageDelete msg) w = on_message_delete msg w"
| "deliver layout (MessageEdit old msg) w = on_message_edit old msg w"
| "deliver layout (MemberBan m) w = on_member_ban m w"
| "deliver layout (MemberUnban srv m) w = on_member_unban srv m w"
| "deliver layout (MemberJoin m) w = on_member_join m w"
| "deliver layout (MemberRemove m) w = on_member_remove m w"
| "deliver layout (Outside store send subs) w =
     (None, w\<lparr>rdb_up := store, send_up := send, subscriptions := subs\<rparr>)"

text \<open>
  Modelled from the spec: the event-delivery loop, which goes on with the next event
  after a handler raised.
\<close>

fun run :: "(message \<Rightarrow> pydict) \<Rightarrow> event list \<Rightarrow> world \<Rightarrow> world" where
  "run layout [] w = w"
| "run layout (e # es) w = run layout es (snd (deliver layout e w))"

section \<open>Concrete inputs\<close>

text \<open>The state at process start: nothing counted, logged, configured or sent.\<close>

definition start_world :: world where
  "start_world =
     \<lparr>events = Map.empty, rdblog = [], rdb_up = True, subscriptions = Map.empty,
      outbox = [], send_up = True, warnings = [], sequence = PNone\<rparr>"

text \<open>
  An object that renders as \<open>s\<close> and as nothing else: it takes no format
  specification, its \<^verbatim>\<open>repr\<close> and \<^verbatim>\<open>ascii\<close> raise, it has the children given and is
  not subscriptable.
\<close>

definition plain_obj :: "string \<Rightarrow> (accessor \<times> pyobj) list \<Rightarrow> pyobj" where
  "plain_obj s children =
     Obj (\<lambda>spec. if spec = [] then Inr s else Inl TypeError)
         (\<lambda>c. if c = CHR ''s''
              then Inr (\<lambda>spec. if spec = [] then Inr s else Inl TypeError)
              else Inl TypeError)
         children
         (\<lambda>a. case a of Attr n \<Rightarrow> AttributeError | Index i \<Rightarrow> TypeError | Key k \<Rightarrow> TypeError)"

definition guild7 :: server where
  "guild7 = \<lparr>server_id = ''7'',
             server_obj = plain_obj ''Guild Seven'' [(Attr ''id'', plain_obj ''7'' [])]\<rparr>"

definition ada :: member where
  "ada = \<lparr>member_id = ''42'', member_name = ''Ada'', member_server = guild7,
          member_obj = plain_obj ''Ada''
            [(Attr ''id'', plain_obj ''42'' []), (Attr ''name'', plain_obj ''Ada'' []),
             (Attr ''server'', server_obj guild7)]\<rparr>"

definition lobby :: channel where
  "lobby = \<lparr>channel_id = ''70'',
            channel_obj = plain_obj ''lobby'' [(Attr ''id'', plain_obj ''70'' [])]\<rparr>"

definition presence_frame :: pydict where
  "presence_frame =
     [(''t'', PStr ''PRESENCE_UPDATE''), (''op'', PInt 0),
      (''d'', PDict [(''guild_id'', PStr ''7''), (''user'', PDict [(''id'', PStr ''42'')]),
                     (''game'', PNone)])]"

definition deleted_message :: message where
  "deleted_message =
     \<lparr>message_author = \<lparr>author_id = ''42'', author_name = ''Ada''\<rparr>,
      message_server = Some guild7, message_channel = lobby, message_content = ''hello''\<rparr>"

section \<open>Classification\<close>

text \<open>
  C7. A frame with a non-empty type tag is classified as exactly that tag, whatever its
  op-code and payload and whether or not the tag is a known one; no warning is emitted.
\<close>

theorem classify_tag_passthrough:
  assumes "dict_get data ''t'' = PStr tag" and "tag \<noteq> []"
  shows "classify data w = (Inr (PStr tag), w)"
  using assms by (simp add: classify_def)

theorem classify_tag_passthrough_witness:
  "classify [(''op'', PInt 11), (''t'', PStr ''SOME_NEW_EVENT'')] start_world =
     (Inr (PStr ''SOME_NEW_EVENT''), start_world)"
  using classify_tag_passthrough
    [of "[(''op'', PInt 11), (''t'', PStr ''SOME_NEW_EVENT'')]" "''SOME_NEW_EVENT''" start_world]
  by (simp add: dict_get_def)

text \<open>
  C2. A frame whose type tag is absent or empty is classified by its op-code: 7, 9, 10
  and 11 give RECONNECT, INVALIDATE_SESSION, READY and HEARTBEAT_ACK; any other integer
  gives the unknown kind, which the code represents by \<^verbatim>\<open>None\<close>, with one warning
  logged. The handler raises nothing on such a frame.
\<close>

theorem classify_untagged:
  assumes "\<not> truthy (dict_get data ''t'')" and "dict_get data ''op'' = PInt n"
  shows "classify data w =
           (if n = 7 then (Inr (PStr ''RECONNECT''), w)
            else if n = 9 then (Inr (PStr ''INVALIDATE_SESSION''), w)
            else if n = 10 then (Inr (PStr ''READY''), w)
            else if n = 11 then (Inr (PStr ''HEARTBEAT_ACK''), w)
            else (Inr PNone, w\<lparr>warnings := warnings w @ [(PNone, data)]\<rparr>))
         \<and> fst (on_socket_response data w) = None"
  using assms
  by (simp add: classify_def unknown_events_def on_socket_response_def log_frame_def
      count_event_def)

theorem classify_untagged_witness:
  "classify [(''op'', PInt 9), (''t'', PNone)] start_world =
     (Inr (PStr ''INVALIDATE_SESSION''), start_world)
   \<and> classify [(''op'', PInt 3)] start_world =
     (Inr PNone, start_world\<lparr>warnings := [(PNone, [(''op'', PInt 3)])]\<rparr>)
   \<and> fst (on_socket_response [(''op'', PInt 3)] start_world) = None"
  using classify_untagged [of "[(''op'', PInt 9), (''t'', PNone)]" 9 start_world]
    classify_untagged [of "[(''op'', PInt 3)]" 3 start_world]
  by (simp add: dict_get_def start_world_def)

section \<open>The heartbeat branch\<close>

text \<open>
  C10. A frame with no type tag and op-code 11 is classified as HEARTBEAT_ACK, which is
  not the literal \<^verbatim>\<open>"HEATBEAT_ACK"\<close> the logging branch tests: the handler appends
  nothing to the log, whether the store is up or not, and the only change of state is
  the increment of the count of HEARTBEAT_ACK.
\<close>

theorem heartbeat_ack_not_logged:
  assumes "\<not> truthy (dict_get data ''t'')" and "dict_get data ''op'' = PInt 11"
  shows "on_socket_response data w =
           (None, w\<lparr>events := counter_incr (events w) (PStr ''HEARTBEAT_ACK'')\<rparr>)
         \<and> rdblog (snd (on_socket_response data w)) = rdblog w"
  using assms
  by (simp add: on_socket_response_def classify_def unknown_events_def log_frame_def
      count_event_def)

theorem heartbeat_ack_not_logged_witness:
  "on_socket_response [(''op'', PInt 11), (''t'', PNone), (''d'', PNone)] start_world =
     (None, start_world\<lparr>events := counter_incr Map.empty (PStr ''HEARTBEAT_ACK'')\<rparr>)
   \<and> rdblog (snd (on_socket_response [(''op'', PInt 11), (''t'', PNone), (''d'', PNone)]
        start_world)) = []"
  using heartbeat_ack_not_logged
    [of "[(''op'', PInt 11), (''t'', PNone), (''d'', PNone)]" start_world]
  by (simp add: dict_get_def start_world_def)

section \<open>A presence update without a user\<close>

text \<open>
  C4. The handler does not complete on every frame: on a PRESENCE_UPDATE frame whose
  payload has no \<^verbatim>\<open>user\<close> entry, \<^verbatim>\<open>data["d"].get("user", None)\<close> is \<^verbatim>\<open>None\<close>
  and the \<^verbatim>\<open>get\<close> called on it raises AttributeError; nothing is logged or counted.
\<close>

theorem presence_without_user_raises:
  "on_socket_response
     [(''t'', PStr ''PRESENCE_UPDATE''), (''op'', PInt 0),
      (''d'', PDict [(''guild_id'', PStr ''7'')])] start_world =
   (Some AttributeError, start_world)"
  by (simp add: on_socket_response_def classify_def dict_get_def log_frame_def
      presence_record_def subscript_def)

section \<open>The message records\<close>

text \<open>
  C9. When a message of a server is deleted or edited and the store takes the record,
  the record logged has \<^verbatim>\<open>channel_id\<close> equal to \<^verbatim>\<open>server_id\<close>: both are the id of
  the message's server, and the message's channel is not read.
\<close>

theorem message_record_channel_is_server:
  assumes "message_server msg = Some srv" and "rdb_up w"
  shows "(\<exists>obb. on_message_delete msg w = (None, w\<lparr>rdblog := rdblog w @ [obb]\<rparr>)
            \<and> dict_get obb ''t'' = PStr ''MESSAGE_DELETE''
            \<and> dict_get obb ''server_id'' = PStr (server_id srv)
            \<and> dict_get obb ''channel_id'' = PStr (server_id srv))
       \<and> (\<exists>obb. on_message_edit old msg w = (None, w\<lparr>rdblog := rdblog w @ [obb]\<rparr>)
            \<and> dict_get obb ''t'' = PStr ''MESSAGE_UPDATE''
            \<and> dict_get obb ''server_id'' = PStr (server_id srv)
            \<and> dict_get obb ''channel_id'' = PStr (server_id srv))"
proof (intro conjI)
  show "\<exists>obb. on_message_delete msg w = (None, w\<lparr>rdblog := rdblog w @ [obb]\<rparr>)
            \<and> dict_get obb ''t'' = PStr ''MESSAGE_DELETE''
            \<and> dict_get obb ''server_id'' = PStr (server_id srv)
            \<and> dict_get obb ''channel_id'' = PStr (server_id srv)"
    using assms unfolding on_message_delete_def rdblog_log_def
    by (intro exI conjI) (simp, simp_all add: dict_get_def)
  show "\<exists>obb. on_message_edit old msg w = (None, w\<lparr>rdblog := rdblog w @ [obb]\<rparr>)
            \<and> dict_get obb ''t'' = PStr ''MESSAGE_UPDATE''
            \<and> dict_get obb ''server_id'' = PStr (server_id srv)
            \<and> dict_get obb ''channel_id'' = PStr (server_id srv)"
    using assms unfolding on_message_edit_def rdblog_log_def
    by (intro exI conjI) (simp, simp_all add: dict_get_def)
qed

theorem message_record_channel_is_server_witness:
  "map (\<lambda>obb. (dict_get obb ''t'', dict_get obb ''server_id'', dict_get obb ''channel_id''))
     (rdblog (snd (on_message_delete deleted_message start_world))) =
   [(PStr ''MESSAGE_DELETE'', PStr ''7'', PStr ''7'')]
  \<and> channel_id (message_channel deleted_message) = ''70''"
  using message_record_channel_is_server [of deleted_message guild7 start_world deleted_message]
  by (auto simp add: deleted_message_def start_world_def guild7_def lobby_def)

section \<open>Aggregation\<close>

lemma map_of_group_count:
  "map_of (group_count rows) k =
     (if count_list (kinds_of rows) k = 0 then None
      else Some (int (count_list (kinds_of rows) k)))"
  by (simp add: group_count_def map_of_map_restrict restrict_map_def count_list_0_iff)

lemma sorted_all_rows: "sorted_wrt (\<lambda>a b. snd b \<le> snd a) (all_rows q)"
proof -
  have "sorted (map snd (sort_key snd q))" by (rule sorted_sort_key)
  then have "sorted_wrt (\<lambda>a b. snd a \<le> snd b) (sort_key snd q)"
    by (simp add: sorted_map)
  then show ?thesis by (simp add: all_rows_def sorted_wrt_rev)
qed

lemma mset_all_rows: "mset (all_rows q) = mset q"
  by (simp add: all_rows_def)

text \<open>
  C6. The table of \<^verbatim>\<open>events all\<close>: the store's group-and-count has one entry per
  kind of the log with the number of its records; the command presents exactly these
  entries, in descending order of count. On a log of kinds A, A, B, C, C, C the table is
  A:2, B:1, C:3, presented as C, A, B; on an empty log the table is empty.
\<close>

theorem events_all_groups_and_sorts:
  "map_of (group_count rows) k =
     (if count_list (kinds_of rows) k = 0 then None
      else Some (int (count_list (kinds_of rows) k)))
   \<and> distinct (map fst (group_count rows))
   \<and> mset (events_all w) = mset (group_count (rdblog w))
   \<and> sorted_wrt (\<lambda>a b. snd b \<le> snd a) (events_all w)
   \<and> group_count (map (\<lambda>k. [(''t'', PStr k)]) [''A'', ''A'', ''B'', ''C'', ''C'', ''C'']) =
       [(PStr ''A'', 2), (PStr ''B'', 1), (PStr ''C'', 3)]
   \<and> events_all (w\<lparr>rdblog := map (\<lambda>k. [(''t'', PStr k)]) [''A'', ''A'', ''B'', ''C'', ''C'', ''C'']\<rparr>) =
       [(PStr ''C'', 3), (PStr ''A'', 2), (PStr ''B'', 1)]
   \<and> events_all (w\<lparr>rdblog := []\<rparr>) = []"
proof -
  have d: "distinct (map fst (group_count rows))"
    by (simp add: group_count_def comp_def)
  have e1: "group_count (map (\<lambda>k. [(''t'', PStr k)]) [''A'', ''A'', ''B'', ''C'', ''C'', ''C'']) =
       [(PStr ''A'', 2), (PStr ''B'', 1), (PStr ''C'', 3)]"
    by (simp add: group_count_def kinds_of_def dict_get_def)
  have e2: "events_all (w\<lparr>rdblog := map (\<lambda>k. [(''t'', PStr k)]) [''A'', ''A'', ''B'', ''C'', ''C'', ''C'']\<rparr>) =
       [(PStr ''C'', 3), (PStr ''A'', 2), (PStr ''B'', 1)]"
    by (simp add: events_all_def all_rows_def group_count_def kinds_of_def dict_get_def)
  have e3: "events_all (w\<lparr>rdblog := []\<rparr>) = []"
    by (simp add: events_all_def all_rows_def group_count_def kinds_of_def)
  show ?thesis
    using map_of_group_count d e1 e2 e3
    by (simp add: events_all_def sorted_all_rows mset_all_rows)
qed

section \<open>The counter\<close>

lemma events_classify: "events (snd (classify data w)) = events w"
  by (simp add: classify_def Let_def split: sum.splits)

lemma events_rdblog_log: "events (snd (rdblog_log obb w)) = events w"
  by (simp add: rdblog_log_def)

lemma events_log_frame: "events (snd (log_frame event data w)) = events w"
  by (simp add: log_frame_def events_rdblog_log split: sum.splits)

lemma events_send_message: "events (snd (send_message ch msg w)) = events w"
  by (simp add: send_message_def)

lemma events_announce: "events (snd (announce srv m category dflt w)) = events w"
  by (simp add: announce_def events_send_message split: option.splits sum.splits prod.splits)

lemma count_of_incr_same: "count_of (counter_incr c k) k = count_of c k + 1"
  by (simp add: counter_incr_def count_of_def)

lemma count_of_incr_le: "count_of c j \<le> count_of (counter_incr c k) j"
  by (simp add: counter_incr_def count_of_def)

lemma events_count_event:
  "count_of (events w) k \<le> count_of (events (snd (count_event event w))) k"
  by (simp add: count_event_def count_of_incr_le)

lemma osr_cases:
  "on_socket_response data w = (r, w') \<Longrightarrow>
     (r = None \<and> (\<exists>event. fst (classify data w) = Inr event \<and> events w' = counter_incr (events w) event))
   \<or> (r \<noteq> None \<and> events w' = events w)"
  unfolding on_socket_response_def
  apply (cases "classify data w")
  subgoal for a w1
    using events_classify [of data w]
    apply (cases a)
     apply auto[1]
    subgoal for event
      using events_log_frame [of event data w1]
      apply (cases "log_frame event data w1")
      apply (auto simp: count_event_def split: option.splits if_splits)
      done
    done
  done

lemma lifecycle_events:
  "events (snd (on_member_join m w)) = events w"
  "events (snd (on_member_remove m w)) = events w"
  "events (snd (on_member_ban m w)) = events w"
  "events (snd (on_member_unban srv m w)) = events w"
  by (simp_all add: on_member_join_def on_member_remove_def on_member_ban_def
      on_member_unban_def rdblog_log_def events_announce)

lemma message_events:
  "events (snd (on_message layout msg w)) = events w"
  "events (snd (on_typing ch user w)) = events w"
  "events (snd (on_message_delete msg w)) = events w"
  "events (snd (on_message_edit old msg w)) = events w"
  by (simp_all add: on_message_def on_typing_def on_message_delete_def
      on_message_edit_def rdblog_log_def split: option.splits)

lemma deliver_mono:
  "count_of (events w) k \<le> count_of (events (snd (deliver layout ev w))) k"
proof (cases ev)
  case (SocketResponse data)
  obtain r w' where rw: "on_socket_response data w = (r, w')"
    by (cases "on_socket_response data w")
  from osr_cases [OF rw] show ?thesis
    using rw SocketResponse by (auto simp: count_of_incr_le)
qed (simp_all add: lifecycle_events message_events)

lemma run_mono:
  "count_of (events w) k \<le> count_of (events (run layout evs w)) k"
proof (induction evs arbitrary: w)
  case Nil
  show ?case by simp
next
  case (Cons e es)
  have "count_of (events w) k \<le> count_of (events (snd (deliver layout e w))) k"
    by (rule deliver_mono)
  also have "\<dots> \<le> count_of (events (run layout es (snd (deliver layout e w)))) k"
    by (rule Cons.IH)
  finally show ?case by simp
qed

text \<open>
  The claim C1 fails when the store refuses the record of a PRESENCE_UPDATE frame: the
  append is awaited before line 108, its failure ends the handler, and the frame is
  not counted.
\<close>

theorem count_skipped_when_log_fails:
  "fst (on_socket_response presence_frame (start_world\<lparr>rdb_up := False\<rparr>)) = Some StoreError
   \<and> events (snd (on_socket_response presence_frame (start_world\<lparr>rdb_up := False\<rparr>)))
       (PStr ''PRESENCE_UPDATE'') = None"
  by (simp add: on_socket_response_def classify_def presence_frame_def dict_get_def
      log_frame_def presence_record_def subscript_def rdblog_log_def start_world_def)

text \<open>
  C1, as amended. The increment of the counter is the last step of the handler and comes
  after the log append. For a frame whose kind is neither PRESENCE_UPDATE nor a
  heartbeat acknowledgement no append is issued and the kind is counted, whatever the
  state of the store. For a PRESENCE_UPDATE frame with a well-formed payload the record
  is appended first: when the append succeeds the kind is counted after it, and when it
  fails the handler raises StoreError and the counter is unchanged.
\<close>

theorem count_follows_log:
  assumes "classify data w = (Inr event, w1)" and "hashable event"
  shows "(event \<noteq> PStr ''PRESENCE_UPDATE'' \<and> event \<noteq> PStr ''HEARTBEAT_ACK''
            \<and> event \<noteq> PStr ''HEATBEAT_ACK'' \<longrightarrow>
          on_socket_response data w = (None, w1\<lparr>events := counter_incr (events w1) event\<rparr>))
       \<and> (event = PStr ''PRESENCE_UPDATE'' \<and> presence_record data = Inr obb \<and> rdb_up w1 \<longrightarrow>
          on_socket_response data w =
            (None, w1\<lparr>rdblog := rdblog w1 @ [obb], events := counter_incr (events w1) event\<rparr>))
       \<and> (event = PStr ''PRESENCE_UPDATE'' \<and> presence_record data = Inr obb \<and> \<not> rdb_up w1 \<longrightarrow>
          on_socket_response data w = (Some StoreError, w1))"
  using assms
  by (simp add: on_socket_response_def log_frame_def rdblog_log_def count_event_def)

theorem count_follows_log_witness:
  "on_socket_response [(''t'', PStr ''MESSAGE_CREATE''), (''op'', PInt 0)]
      (start_world\<lparr>rdb_up := False\<rparr>) =
     (None, start_world\<lparr>rdb_up := False,
        events := counter_incr Map.empty (PStr ''MESSAGE_CREATE'')\<rparr>)
   \<and> on_socket_response presence_frame start_world =
     (None, start_world\<lparr>rdblog :=
         [[(''t'', PStr ''PRESENCE_UPDATE''), (''server_id'', PStr ''7''),
           (''member_id'', PStr ''42''), (''game'', PNone)]],
        events := counter_incr Map.empty (PStr ''PRESENCE_UPDATE'')\<rparr>)
   \<and> on_socket_response presence_frame (start_world\<lparr>rdb_up := False\<rparr>) =
     (Some StoreError, start_world\<lparr>rdb_up := False\<rparr>)"
proof -
  have p: "presence_record presence_frame =
      Inr [(''t'', PStr ''PRESENCE_UPDATE''), (''server_id'', PStr ''7''),
           (''member_id'', PStr ''42''), (''game'', PNone)]"
    by (simp add: presence_record_def presence_frame_def subscript_def dict_get_def)
  have c: "classify presence_frame w = (Inr (PStr ''PRESENCE_UPDATE''), w)" for w
    by (simp add: classify_def presence_frame_def dict_get_def)
  have m: "classify [(''t'', PStr ''MESSAGE_CREATE''), (''op'', PInt 0)] w =
      (Inr (PStr ''MESSAGE_CREATE''), w)" for w
    by (simp add: classify_def dict_get_def)
  show ?thesis
    using count_follows_log [OF m, of "start_world\<lparr>rdb_up := False\<rparr>" "[]"]
      count_follows_log [OF c, of start_world, OF _, of "[(''t'', PStr ''PRESENCE_UPDATE''), (''server_id'', PStr ''7''),
           (''member_id'', PStr ''42''), (''game'', PNone)]"]
      count_follows_log [OF c, of "start_world\<lparr>rdb_up := False\<rparr>", OF _, of "[(''t'', PStr ''PRESENCE_UPDATE''), (''server_id'', PStr ''7''),
           (''member_id'', PStr ''42''), (''game'', PNone)]"]
      p
    by (simp add: start_world_def)
qed

text \<open>
  The claim C8 fails on the same path: a frame classified as PRESENCE_UPDATE is not
  counted at all when its record cannot be stored.
\<close>

theorem presence_not_counted_when_store_down:
  "fst (classify [(''t'', PStr ''PRESENCE_UPDATE''), (''d'', PDict [(''user'', PDict [])])]
         (start_world\<lparr>rdb_up := False\<rparr>)) = Inr (PStr ''PRESENCE_UPDATE'')
   \<and> count_of (events (snd (on_socket_response
         [(''t'', PStr ''PRESENCE_UPDATE''), (''d'', PDict [(''user'', PDict [])])]
         (start_world\<lparr>rdb_up := False\<rparr>)))) (PStr ''PRESENCE_UPDATE'') = 0"
  by (simp add: on_socket_response_def classify_def dict_get_def count_of_def
      log_frame_def presence_record_def subscript_def rdblog_log_def start_world_def)

text \<open>
  C8, as amended. A frame that the handler processes to its end is counted exactly once:
  the count of its kind grows by 1 (an absent entry is created with 1) and no other
  entry changes. No handler ever lowers a count: over every delivery, and so over every
  run of the cog, each count is non-decreasing.
\<close>

theorem counter_monotone:
  "(on_socket_response data w = (None, w') \<longrightarrow>
      (\<exists>event. fst (classify data w) = Inr event
         \<and> events w' = counter_incr (events w) event))
   \<and> count_of (counter_incr c k) k = count_of c k + 1
   \<and> (c k = None \<longrightarrow> counter_incr c k k = Some 1)
   \<and> (j \<noteq> k \<longrightarrow> counter_incr c k j = c j)
   \<and> count_of (events w) k \<le> count_of (events (snd (deliver layout ev w))) k
   \<and> count_of (events w) k \<le> count_of (events (run layout evs w)) k"
proof -
  have a: "on_socket_response data w = (None, w') \<longrightarrow>
      (\<exists>event. fst (classify data w) = Inr event
         \<and> events w' = counter_incr (events w) event)"
    using osr_cases [of data w None w'] by simp
  have b: "c k = None \<longrightarrow> counter_incr c k k = Some 1"
    by (simp add: counter_incr_def count_of_def)
  have d: "j \<noteq> k \<longrightarrow> counter_incr c k j = c j"
    by (simp add: counter_incr_def)
  show ?thesis
    using a b d by (simp add: count_of_incr_same deliver_mono run_mono)
qed

theorem counter_monotone_witness:
  "events (snd (on_socket_response [(''t'', PStr ''MESSAGE_CREATE'')] start_world)) =
     counter_incr Map.empty (PStr ''MESSAGE_CREATE'')
   \<and> counter_incr Map.empty (PStr ''MESSAGE_CREATE'') (PStr ''MESSAGE_CREATE'') = Some 1
   \<and> counter_incr Map.empty (PStr ''MESSAGE_CREATE'') (PStr ''READY'') = None"
proof -
  let ?w' = "start_world\<lparr>events := counter_incr Map.empty (PStr ''MESSAGE_CREATE'')\<rparr>"
  have r: "on_socket_response [(''t'', PStr ''MESSAGE_CREATE'')] start_world = (None, ?w')"
    by (simp add: on_socket_response_def classify_def dict_get_def log_frame_def
        count_event_def start_world_def)
  have cl: "fst (classify [(''t'', PStr ''MESSAGE_CREATE'')] start_world) =
      Inr (PStr ''MESSAGE_CREATE'')"
    by (simp add: classify_def dict_get_def)
  have e: "events start_world = Map.empty"
    by (simp add: start_world_def)
  note t = counter_monotone [of "[(''t'', PStr ''MESSAGE_CREATE'')]" start_world ?w'
      Map.empty "PStr ''MESSAGE_CREATE''" "PStr ''READY''"]
  from t r cl e have "events ?w' = counter_incr Map.empty (PStr ''MESSAGE_CREATE'')"
    by auto
  moreover from t
  have "counter_incr Map.empty (PStr ''MESSAGE_CREATE'') (PStr ''MESSAGE_CREATE'') = Some 1"
    and "counter_incr Map.empty (PStr ''MESSAGE_CREATE'') (PStr ''READY'') = None"
    by simp_all
  ultimately show ?thesis by (simp add: r)
qed

section \<open>The lifecycle flow\<close>

lemma lifecycle_store_up:
  "rdb_up w \<Longrightarrow> on_member_join m w =
     announce (member_server m) m ''joins'' ''Welcome {member.name}!''
       (w\<lparr>rdblog := rdblog w @ [member_record ''GUILD_MEMBER_ADD'' m (member_server m)]\<rparr>)"
  "rdb_up w \<Longrightarrow> on_member_remove m w =
     announce (member_server m) m ''leaves'' ''Bye {member.name}!''
       (w\<lparr>rdblog := rdblog w @ [member_record ''GUILD_MEMBER_REMOVE'' m (member_server m)]\<rparr>)"
  "rdb_up w \<Longrightarrow> on_member_ban m w =
     announce (member_server m) m ''bans'' ''`{member.name}` got **bent**''
       (w\<lparr>rdblog := rdblog w @ [member_record ''GUILD_BAN_ADD'' m (member_server m)]\<rparr>)"
  "rdb_up w \<Longrightarrow> on_member_unban srv m w =
     announce srv m ''unbans'' ''`{member.name}` got **unbent**''
       (w\<lparr>rdblog := rdblog w @ [member_record ''GUILD_BAN_REMOVE'' m srv]\<rparr>)"
  by (simp_all add: on_member_join_def on_member_remove_def on_member_ban_def
      on_member_unban_def rdblog_log_def)

lemma lifecycle_store_down:
  "\<not> rdb_up w \<Longrightarrow> on_member_join m w = (Some StoreError, w)"
  "\<not> rdb_up w \<Longrightarrow> on_member_remove m w = (Some StoreError, w)"
  "\<not> rdb_up w \<Longrightarrow> on_member_ban m w = (Some StoreError, w)"
  "\<not> rdb_up w \<Longrightarrow> on_member_unban srv m w = (Some StoreError, w)"
  by (simp_all add: on_member_join_def on_member_remove_def on_member_ban_def
      on_member_unban_def rdblog_log_def)

lemma rdblog_announce: "rdblog (snd (announce srv m category dflt w)) = rdblog w"
  by (simp add: announce_def send_message_def split: option.splits sum.splits prod.splits)

lemma lifecycle_rdblog:
  "rdb_up w \<Longrightarrow> rdblog (snd (on_member_join m w)) =
     rdblog w @ [member_record ''GUILD_MEMBER_ADD'' m (member_server m)]"
  "rdb_up w \<Longrightarrow> rdblog (snd (on_member_remove m w)) =
     rdblog w @ [member_record ''GUILD_MEMBER_REMOVE'' m (member_server m)]"
  "rdb_up w \<Longrightarrow> rdblog (snd (on_member_ban m w)) =
     rdblog w @ [member_record ''GUILD_BAN_ADD'' m (member_server m)]"
  "rdb_up w \<Longrightarrow> rdblog (snd (on_member_unban srv m w)) =
     rdblog w @ [member_record ''GUILD_BAN_REMOVE'' m srv]"
  by (simp_all add: lifecycle_store_up rdblog_announce)

lemma announce_unsubscribed:
  "subscriptions w (server_id srv, category) = None \<Longrightarrow>
   announce srv m category dflt (w\<lparr>rdblog := l\<rparr>) = (None, w\<lparr>rdblog := l\<rparr>)"
  by (simp add: announce_def get_event_message_def)

lemma lifecycle_unsubscribed:
  "rdb_up w \<and> subscriptions w (server_id (member_server m), ''joins'') = None \<longrightarrow>
     on_member_join m w =
       (None, w\<lparr>rdblog := rdblog w @ [member_record ''GUILD_MEMBER_ADD'' m (member_server m)]\<rparr>)"
  "rdb_up w \<and> subscriptions w (server_id (member_server m), ''leaves'') = None \<longrightarrow>
     on_member_remove m w =
       (None, w\<lparr>rdblog := rdblog w @ [member_record ''GUILD_MEMBER_REMOVE'' m (member_server m)]\<rparr>)"
  "rdb_up w \<and> subscriptions w (server_id (member_server m), ''bans'') = None \<longrightarrow>
     on_member_ban m w =
       (None, w\<lparr>rdblog := rdblog w @ [member_record ''GUILD_BAN_ADD'' m (member_server m)]\<rparr>)"
  "rdb_up w \<and> subscriptions w (server_id srv, ''unbans'') = None \<longrightarrow>
     on_member_unban srv m w =
       (None, w\<lparr>rdblog := rdblog w @ [member_record ''GUILD_BAN_REMOVE'' m srv]\<rparr>)"
  by (simp_all add: lifecycle_store_up announce_unsubscribed)

lemma tagged_frame_counted:
  "dict_get data ''t'' = PStr tag
     \<and> tag \<in> {''GUILD_MEMBER_ADD'', ''GUILD_MEMBER_REMOVE'', ''GUILD_BAN_ADD'',
                ''GUILD_BAN_REMOVE''} \<longrightarrow>
   on_socket_response data w = (None, w\<lparr>events := counter_incr (events w) (PStr tag)\<rparr>)"
  by (auto simp: on_socket_response_def classify_def log_frame_def count_event_def)

lemma frame_then_handler:
  assumes "on_socket_response data w = (None, w\<lparr>events := c\<rparr>)"
    and "\<And>w'. events (snd (h w')) = events w'"
    and "\<And>w'. rdb_up w' \<Longrightarrow> rdblog (snd (h w')) = rdblog w' @ [obb]"
    and "deliver layout ev = h"
    and "rdb_up w"
  shows "events (run layout [SocketResponse data, ev] w) = c
       \<and> rdblog (run layout [SocketResponse data, ev] w) = rdblog w @ [obb]"
  using assms(1,4,5) assms(2) [of "w\<lparr>events := c\<rparr>"] assms(3) [of "w\<lparr>events := c\<rparr>"]
  by simp

text \<open>
  The claim C5 fails when the store refuses the record: the guild has no subscription for
  the category, yet the handler raises the append's StoreError instead of ending as a
  no-op, and the log holds no record of the event, also after the frame and the parsed
  event have both been delivered; the frame is counted all the same.
\<close>

theorem member_join_raises_when_store_down:
  "get_event_message (start_world\<lparr>rdb_up := False\<rparr>) (member_server ada) ''joins''
     ''Welcome {member.name}!'' = None
   \<and> on_member_join ada (start_world\<lparr>rdb_up := False\<rparr>) =
       (Some StoreError, start_world\<lparr>rdb_up := False\<rparr>)
   \<and> run (\<lambda>msg. [])
       [SocketResponse [(''t'', PStr ''GUILD_MEMBER_ADD''), (''op'', PInt 0)], MemberJoin ada]
       (start_world\<lparr>rdb_up := False\<rparr>) =
     start_world\<lparr>rdb_up := False,
       events := counter_incr Map.empty (PStr ''GUILD_MEMBER_ADD'')\<rparr>
   \<and> rdblog (start_world\<lparr>rdb_up := False,
       events := counter_incr Map.empty (PStr ''GUILD_MEMBER_ADD'')\<rparr>) = []"
  by (simp add: on_member_join_def rdblog_log_def get_event_message_def start_world_def
      on_socket_response_def classify_def dict_get_def log_frame_def count_event_def)

text \<open>
  C5, as amended. For each of the four lifecycle events:
  \<^item> the counter update always occurs, made by \<^verbatim>\<open>on_socket_response\<close> on the frame of
    the event, which appends nothing to the log and raises nothing; the lifecycle
    handler itself never changes the counter;
  \<^item> the handler issues the append of its record first, whatever the configuration:
    when the store accepts it, the log after the handler is the log before it followed
    by that record, whether the handler then returns or raises;
  \<^item> when the store accepts the append and the guild has no subscription for the
    category, the handler returns normally and nothing else changes: a no-op, not an
    error, the record being in the log;
  \<^item> when the store refuses the append, the handler raises StoreError and leaves the
    state as it was, whatever the configuration;
  \<^item> delivering the frame and then the parsed event, with the store up, leaves the kind
    counted once more and the record appended.
\<close>

theorem lifecycle_logged_then_resolved:
  "(rdb_up w \<and> subscriptions w (server_id (member_server m), ''joins'') = None \<longrightarrow>
      on_member_join m w =
        (None, w\<lparr>rdblog := rdblog w @ [member_record ''GUILD_MEMBER_ADD'' m (member_server m)]\<rparr>))
   \<and> (rdb_up w \<and> subscriptions w (server_id (member_server m), ''leaves'') = None \<longrightarrow>
      on_member_remove m w =
        (None, w\<lparr>rdblog := rdblog w @ [member_record ''GUILD_MEMBER_REMOVE'' m (member_server m)]\<rparr>))
   \<and> (rdb_up w \<and> subscriptions w (server_id (member_server m), ''bans'') = None \<longrightarrow>
      on_member_ban m w =
        (None, w\<lparr>rdblog := rdblog w @ [member_record ''GUILD_BAN_ADD'' m (member_server m)]\<rparr>))
   \<and> (rdb_up w \<and> subscriptions w (server_id srv, ''unbans'') = None \<longrightarrow>
      on_member_unban srv m w =
        (None, w\<lparr>rdblog := rdblog w @ [member_record ''GUILD_BAN_REMOVE'' m srv]\<rparr>))
   \<and> events (snd (on_member_join m w)) = events w
   \<and> events (snd (on_member_remove m w)) = events w
   \<and> events (snd (on_member_ban m w)) = events w
   \<and> events (snd (on_member_unban srv m w)) = events w
   \<and> (dict_get data ''t'' = PStr tag
        \<and> tag \<in> {''GUILD_MEMBER_ADD'', ''GUILD_MEMBER_REMOVE'', ''GUILD_BAN_ADD'',
                   ''GUILD_BAN_REMOVE''} \<longrightarrow>
      on_socket_response data w = (None, w\<lparr>events := counter_incr (events w) (PStr tag)\<rparr>))
   \<and> (rdb_up w \<longrightarrow>
      rdblog (snd (on_member_join m w)) =
        rdblog w @ [member_record ''GUILD_MEMBER_ADD'' m (member_server m)])
   \<and> (rdb_up w \<longrightarrow>
      rdblog (snd (on_member_remove m w)) =
        rdblog w @ [member_record ''GUILD_MEMBER_REMOVE'' m (member_server m)])
   \<and> (rdb_up w \<longrightarrow>
      rdblog (snd (on_member_ban m w)) =
        rdblog w @ [member_record ''GUILD_BAN_ADD'' m (member_server m)])
   \<and> (rdb_up w \<longrightarrow>
      rdblog (snd (on_member_unban srv m w)) =
        rdblog w @ [member_record ''GUILD_BAN_REMOVE'' m srv])
   \<and> (\<not> rdb_up w \<longrightarrow> on_member_join m w = (Some StoreError, w))
   \<and> (\<not> rdb_up w \<longrightarrow> on_member_remove m w = (Some StoreError, w))
   \<and> (\<not> rdb_up w \<longrightarrow> on_member_ban m w = (Some StoreError, w))
   \<and> (\<not> rdb_up w \<longrightarrow> on_member_unban srv m w = (Some StoreError, w))
   \<and> (rdb_up w \<and> dict_get data ''t'' = PStr ''GUILD_MEMBER_ADD'' \<longrightarrow>
      events (run layout [SocketResponse data, MemberJoin m] w) =
        counter_incr (events w) (PStr ''GUILD_MEMBER_ADD'')
      \<and> rdblog (run layout [SocketResponse data, MemberJoin m] w) =
        rdblog w @ [member_record ''GUILD_MEMBER_ADD'' m (member_server m)])
   \<and> (rdb_up w \<and> dict_get data ''t'' = PStr ''GUILD_MEMBER_REMOVE'' \<longrightarrow>
      events (run layout [SocketResponse data, MemberRemove m] w) =
        counter_incr (events w) (PStr ''GUILD_MEMBER_REMOVE'')
      \<and> rdblog (run layout [SocketResponse data, MemberRemove m] w) =
        rdblog w @ [member_record ''GUILD_MEMBER_REMOVE'' m (member_server m)])
   \<and> (rdb_up w \<and> dict_get data ''t'' = PStr ''GUILD_BAN_ADD'' \<longrightarrow>
      events (run layout [SocketResponse data, MemberBan m] w) =
        counter_incr (events w) (PStr ''GUILD_BAN_ADD'')
      \<and> rdblog (run layout [SocketResponse data, MemberBan m] w) =
        rdblog w @ [member_record ''GUILD_BAN_ADD'' m (member_server m)])
   \<and> (rdb_up w \<and> dict_get data ''t'' = PStr ''GUILD_BAN_REMOVE'' \<longrightarrow>
      events (run layout [SocketResponse data, MemberUnban srv m] w) =
        counter_incr (events w) (PStr ''GUILD_BAN_REMOVE'')
      \<and> rdblog (run layout [SocketResponse data, MemberUnban srv m] w) =
        rdblog w @ [member_record ''GUILD_BAN_REMOVE'' m srv])"
proof -
  have down: "\<not> rdb_up w \<longrightarrow> on_member_join m w = (Some StoreError, w)"
    "\<not> rdb_up w \<longrightarrow> on_member_remove m w = (Some StoreError, w)"
    "\<not> rdb_up w \<longrightarrow> on_member_ban m w = (Some StoreError, w)"
    "\<not> rdb_up w \<longrightarrow> on_member_unban srv m w = (Some StoreError, w)"
    by (simp_all add: lifecycle_store_down)
  have up: "rdb_up w \<longrightarrow> rdblog (snd (on_member_join m w)) =
        rdblog w @ [member_record ''GUILD_MEMBER_ADD'' m (member_server m)]"
    "rdb_up w \<longrightarrow> rdblog (snd (on_member_remove m w)) =
        rdblog w @ [member_record ''GUILD_MEMBER_REMOVE'' m (member_server m)]"
    "rdb_up w \<longrightarrow> rdblog (snd (on_member_ban m w)) =
        rdblog w @ [member_record ''GUILD_BAN_ADD'' m (member_server m)]"
    "rdb_up w \<longrightarrow> rdblog (snd (on_member_unban srv m w)) =
        rdblog w @ [member_record ''GUILD_BAN_REMOVE'' m srv]"
    by (simp_all add: lifecycle_rdblog)
  have j: "rdb_up w \<and> dict_get data ''t'' = PStr ''GUILD_MEMBER_ADD'' \<longrightarrow>
      events (run layout [SocketResponse data, MemberJoin m] w) =
        counter_incr (events w) (PStr ''GUILD_MEMBER_ADD'')
      \<and> rdblog (run layout [SocketResponse data, MemberJoin m] w) =
        rdblog w @ [member_record ''GUILD_MEMBER_ADD'' m (member_server m)]"
    using tagged_frame_counted [of data "''GUILD_MEMBER_ADD''" w]
      frame_then_handler [of data w _ "on_member_join m" _ layout "MemberJoin m"]
    by (auto simp: lifecycle_events lifecycle_rdblog)
  have r: "rdb_up w \<and> dict_get data ''t'' = PStr ''GUILD_MEMBER_REMOVE'' \<longrightarrow>
      events (run layout [SocketResponse data, MemberRemove m] w) =
        counter_incr (events w) (PStr ''GUILD_MEMBER_REMOVE'')
      \<and> rdblog (run layout [SocketResponse data, MemberRemove m] w) =
        rdblog w @ [member_record ''GUILD_MEMBER_REMOVE'' m (member_server m)]"
    using tagged_frame_counted [of data "''GUILD_MEMBER_REMOVE''" w]
      frame_then_handler [of data w _ "on_member_remove m" _ layout "MemberRemove m"]
    by (auto simp: lifecycle_events lifecycle_rdblog)
  have b: "rdb_up w \<and> dict_get data ''t'' = PStr ''GUILD_BAN_ADD'' \<longrightarrow>
      events (run layout [SocketResponse data, MemberBan m] w) =
        counter_incr (events w) (PStr ''GUILD_BAN_ADD'')
      \<and> rdblog (run layout [SocketResponse data, MemberBan m] w) =
        rdblog w @ [member_record ''GUILD_BAN_ADD'' m (member_server m)]"
    using tagged_frame_counted [of data "''GUILD_BAN_ADD''" w]
      frame_then_handler [of data w _ "on_member_ban m" _ layout "MemberBan m"]
    by (auto simp: lifecycle_events lifecycle_rdblog)
  have u: "rdb_up w \<and> dict_get data ''t'' = PStr ''GUILD_BAN_REMOVE'' \<longrightarrow>
      events (run layout [SocketResponse data, MemberUnban srv m] w) =
        counter_incr (events w) (PStr ''GUILD_BAN_REMOVE'')
      \<and> rdblog (run layout [SocketResponse data, MemberUnban srv m] w) =
        rdblog w @ [member_record ''GUILD_BAN_REMOVE'' m srv]"
    using tagged_frame_counted [of data "''GUILD_BAN_REMOVE''" w]
      frame_then_handler [of data w _ "on_member_unban srv m" _ layout "MemberUnban srv m"]
    by (auto simp: lifecycle_events lifecycle_rdblog)
  show ?thesis
    by (intro conjI)
      (rule lifecycle_unsubscribed lifecycle_events tagged_frame_counted down up j r b u)+
qed

theorem lifecycle_logged_then_resolved_witness:
  "on_member_join ada start_world =
     (None, start_world\<lparr>rdblog := [member_record ''GUILD_MEMBER_ADD'' ada guild7]\<rparr>)
   \<and> on_member_unban guild7 ada start_world =
     (None, start_world\<lparr>rdblog := [member_record ''GUILD_BAN_REMOVE'' ada guild7]\<rparr>)
   \<and> on_socket_response [(''t'', PStr ''GUILD_MEMBER_ADD''), (''op'', PInt 0)] start_world =
     (None, start_world\<lparr>events := counter_incr Map.empty (PStr ''GUILD_MEMBER_ADD'')\<rparr>)
   \<and> rdblog (snd (on_member_join ada
       (start_world\<lparr>subscriptions := [(''7'', ''joins'') \<mapsto> (lobby, Some ''{admin}'')]\<rparr>))) =
     [member_record ''GUILD_MEMBER_ADD'' ada guild7]
   \<and> on_member_ban ada (start_world\<lparr>rdb_up := False\<rparr>) =
     (Some StoreError, start_world\<lparr>rdb_up := False\<rparr>)
   \<and> events (run (\<lambda>msg. [])
       [SocketResponse [(''t'', PStr ''GUILD_MEMBER_ADD''), (''op'', PInt 0)], MemberJoin ada]
       start_world) = counter_incr Map.empty (PStr ''GUILD_MEMBER_ADD'')
   \<and> rdblog (run (\<lambda>msg. [])
       [SocketResponse [(''t'', PStr ''GUILD_MEMBER_ADD''), (''op'', PInt 0)], MemberJoin ada]
       start_world) = [member_record ''GUILD_MEMBER_ADD'' ada guild7]"
proof -
  let ?frame = "[(''t'', PStr ''GUILD_MEMBER_ADD''), (''op'', PInt 0)]"
  let ?w = "start_world\<lparr>subscriptions := [(''7'', ''joins'') \<mapsto> (lobby, Some ''{admin}'')]\<rparr>"
  have s: "rdb_up start_world" "rdblog start_world = []" "events start_world = Map.empty"
    "subscriptions start_world = Map.empty"
    by (simp_all add: start_world_def)
  have a: "member_server ada = guild7" "server_id guild7 = ''7''"
    by (simp_all add: ada_def guild7_def)
  have d: "dict_get ?frame ''t'' = PStr ''GUILD_MEMBER_ADD''"
    by (simp add: dict_get_def)
  note t1 = lifecycle_logged_then_resolved [of start_world ada guild7 ?frame
      "''GUILD_MEMBER_ADD''" "\<lambda>msg. []"]
  note t2 = lifecycle_logged_then_resolved [of ?w ada guild7 "[]" "[]" "\<lambda>msg. []"]
  note t3 = lifecycle_logged_then_resolved [of "start_world\<lparr>rdb_up := False\<rparr>" ada guild7
      "[]" "[]" "\<lambda>msg. []"]
  from t1 s a d have c1: "on_member_join ada start_world =
     (None, start_world\<lparr>rdblog := [member_record ''GUILD_MEMBER_ADD'' ada guild7]\<rparr>)"
    by simp
  from t1 s a d have c2: "on_member_unban guild7 ada start_world =
     (None, start_world\<lparr>rdblog := [member_record ''GUILD_BAN_REMOVE'' ada guild7]\<rparr>)"
    by simp
  from t1 s a d have c3: "on_socket_response ?frame start_world =
     (None, start_world\<lparr>events := counter_incr Map.empty (PStr ''GUILD_MEMBER_ADD'')\<rparr>)"
    by simp
  from t2 s a have c4: "rdblog (snd (on_member_join ada ?w)) =
     [member_record ''GUILD_MEMBER_ADD'' ada guild7]"
    by simp
  from t3 s have c5: "on_member_ban ada (start_world\<lparr>rdb_up := False\<rparr>) =
     (Some StoreError, start_world\<lparr>rdb_up := False\<rparr>)"
    by simp
  from t1 s a d have c6: "events (run (\<lambda>msg. []) [SocketResponse ?frame, MemberJoin ada]
       start_world) = counter_incr Map.empty (PStr ''GUILD_MEMBER_ADD'')"
    by (simp del: run.simps)
  from t1 s a d have c7: "rdblog (run (\<lambda>msg. []) [SocketResponse ?frame, MemberJoin ada]
       start_world) = [member_record ''GUILD_MEMBER_ADD'' ada guild7]"
    by (simp del: run.simps)
  show ?thesis
    by (intro conjI) (rule c1 c2 c3 c4 c5 c6 c7)+
qed

section \<open>Templates\<close>












end
